theory Spec2Isabelle
  imports Main
begin

section \<open>commoncode.command: running bundled commands and loading shared libraries\<close>

text \<open>
  A shallow embedding of \<^verbatim>\<open>src/commoncode/command.py\<close>. Python text and byte strings
  are \<open>string\<close>; a value that may be \<^verbatim>\<open>None\<close> is an \<open>option\<close>; a \<^verbatim>\<open>dict\<close> of
  environment variables is a map; an exception is the \<open>Inl\<close> side of a sum. The process
  state the module reads and changes (working directory, directories and files on disk,
  \<^verbatim>\<open>os.environ\<close>, child processes) is an explicit record that every effectful function
  takes and returns.
\<close>

subsection \<open>Python values\<close>

text \<open>Truthiness of an optional string: \<^verbatim>\<open>None\<close> and \<^verbatim>\<open>''\<close> are false.\<close>

fun truthy :: "string option \<Rightarrow> bool" where
  "truthy None = False"
| "truthy (Some s) = (s \<noteq> [])"

text \<open>\<^verbatim>\<open>x or d\<close> for an optional string \<open>x\<close> and a string \<open>d\<close>.\<close>

fun str_or :: "string option \<Rightarrow> string \<Rightarrow> string" where
  "str_or None d = d"
| "str_or (Some s) d = (if s = [] then d else s)"

text \<open>\<^verbatim>\<open>str(x)\<close>, as \<^verbatim>\<open>format\<close> and f-strings print an optional string.\<close>

fun py_str :: "string option \<Rightarrow> string" where
  "py_str None = ''None''"
| "py_str (Some s) = s"

text \<open>
  \<^verbatim>\<open>s.split(sep)\<close> with a one-character separator: the result is never empty
  (\<^verbatim>\<open>''.split(':') == ['']\<close>), and empty segments are kept.
\<close>

fun str_split :: "char \<Rightarrow> string \<Rightarrow> string list" where
  "str_split c [] = [[]]"
| "str_split c (x # xs) =
     (if x = c then [] # str_split c xs
      else (case str_split c xs of
              [] \<Rightarrow> [[x]]
            | y # ys \<Rightarrow> (x # y) # ys))"

text \<open>\<^verbatim>\<open>sep.join(parts)\<close> with a one-character separator.\<close>

fun str_join :: "char \<Rightarrow> string list \<Rightarrow> string" where
  "str_join c [] = []"
| "str_join c [x] = x"
| "str_join c (x # y # ys) = x @ c # str_join c (y # ys)"

text \<open>
  \<^verbatim>\<open>bytes.strip()\<close>: removes the ASCII whitespace bytes (space, tab, newline, carriage
  return, vertical tab, form feed) from both ends.
\<close>

definition is_space :: "char \<Rightarrow> bool" where
  "is_space c = (c \<in> {CHR 0x20, CHR 0x09, CHR 0x0A, CHR 0x0D, CHR 0x0B, CHR 0x0C})"

definition bytes_lstrip :: "string \<Rightarrow> string" where
  "bytes_lstrip s = dropWhile is_space s"

definition bytes_rstrip :: "string \<Rightarrow> string" where
  "bytes_rstrip s = rev (dropWhile is_space (rev s))"

definition bytes_strip :: "string \<Rightarrow> string" where
  "bytes_strip s = bytes_rstrip (bytes_lstrip s)"

subsection \<open>update_path_var\<close>

text \<open>
  \<^verbatim>\<open>update_path_var(existing_path_var, new_path)\<close>. The separator \<^verbatim>\<open>os.pathsep\<close> is a
  parameter (\<open>:\<close> on POSIX, \<open>;\<close> on Windows). Both arguments are text here, on which
  \<^verbatim>\<open>os.fsdecode\<close> is the identity. The first branch after the split tests
  \<^verbatim>\<open>not path_elements\<close>, as the source does.
\<close>

definition update_path_var :: "char \<Rightarrow> string option \<Rightarrow> string option \<Rightarrow> string option" where
  "update_path_var sep existing_path_var new_path =
     (case new_path of
        None \<Rightarrow> existing_path_var
      | Some np \<Rightarrow>
          if np = [] then existing_path_var
          else
            (let existing = str_or existing_path_var [];
                 path_elements = str_split sep existing
             in if path_elements = [] then Some np
                else if np \<notin> set path_elements
                  then Some (str_join sep (np # path_elements))
                else Some existing))"

subsection \<open>Errors, processes and the process state\<close>

text \<open>
  The exceptions the module raises or lets through. An \<^verbatim>\<open>ImportError\<close> of
  \<^verbatim>\<open>load_shared_library\<close> is identified by which of its three messages it carries and
  by the two values the message prints; an \<^verbatim>\<open>OSError\<close> by its \<^verbatim>\<open>args\<close>.
\<close>

datatype import_reason = Dll_path_missing | Lib_dir_missing | Load_failed

datatype error =
    AssertionError
  | ImportError import_reason "string option" "string option"
  | OSError "string list"

text \<open>The keyword arguments of \<^verbatim>\<open>subprocess.Popen\<close>; the two streams are named by
  the paths of the files they write to.\<close>

record popen_args =
  popen_cwd :: string
  popen_env :: "(string \<rightharpoonup> string) option"
  popen_stdout :: string
  popen_stderr :: string
  popen_shell :: bool
  popen_bufsize :: int
  popen_universal_newlines :: bool

text \<open>What a spawned child does: its process id, its exit code and the bytes it writes
  to its standard output and standard error.\<close>

record child =
  child_pid :: nat
  child_returncode :: int
  child_stdout :: string
  child_stderr :: string

text \<open>A loaded \<^verbatim>\<open>ctypes.CDLL\<close> object, with its \<^verbatim>\<open>_name\<close> attribute.\<close>

record cdll =
  cdll_name :: string
  cdll_handle :: nat

text \<open>The operating-system calls the module makes, in the order it makes them.\<close>

datatype event =
    Chdir string
  | Mkdtemp string
  | Open_write string
  | Popen "string list" popen_args
  | Kill nat
  | Wait nat
  | Read_file string
  | Dlopen string

record os_state =
  cwd :: string
  dirs :: "string set"
  files :: "string \<rightharpoonup> string"
  environ :: "string \<rightharpoonup> string"
  running :: "nat set"
  trace :: "event list"

text \<open>
  What the module imports or depends on and does not define: the platform flags of
  \<^verbatim>\<open>commoncode.system\<close>, the separators of \<^verbatim>\<open>os\<close>, the module constant
  \<^verbatim>\<open>curr_dir\<close>, the name \<^verbatim>\<open>get_temp_dir\<close> picks, the escape or replacement
  \<^verbatim>\<open>text.toascii\<close> writes for a non-ASCII byte, what the operating system answers when
  a command is spawned or a library is opened, and the two printers used in the
  diagnostics of a failed load.
\<close>

record platform =
  on_posix :: bool
  on_windows :: bool
  pathsep :: char
  os_sep :: char
  curr_dir :: string
  get_temp_dir :: "string \<Rightarrow> os_state \<Rightarrow> string"
  ascii_escape :: "char \<Rightarrow> string"
  spawn :: "string list \<Rightarrow> popen_args \<Rightarrow> os_state \<Rightarrow> error + child"
  dlopen :: "string \<Rightarrow> os_state \<Rightarrow> error + cdll"
  pformat_environ :: "(string \<rightharpoonup> string) \<Rightarrow> string"
  format_exc :: "error \<Rightarrow> string"

subsection \<open>toascii\<close>

text \<open>A byte is ASCII when its top bit is clear.\<close>

definition is_ascii :: "char \<Rightarrow> bool" where
  "is_ascii c = (\<not> digit7 c)"

text \<open>
  Modelled from the spec: \<^verbatim>\<open>commoncode.text.toascii\<close> is not among the sources. The
  spec's decoder turns bytes into an ASCII-safe text form, in which non-ASCII bytes are
  escaped or replaced and never left to raise a decoding error. So the decoder is total;
  it keeps an ASCII byte as it is, and for any other byte it writes the platform's escape
  or replacement for that byte, of which only ASCII characters can appear in the result.
\<close>

definition toascii :: "platform \<Rightarrow> string \<Rightarrow> string" where
  "toascii W b =
     concat (map (\<lambda>c. if is_ascii c then [c] else filter is_ascii (ascii_escape W c)) b)"

subsection \<open>Operating-system calls\<close>

definition log_event :: "event \<Rightarrow> os_state \<Rightarrow> os_state" where
  "log_event ev st = st\<lparr>trace := trace st @ [ev]\<rparr>"

text \<open>\<^verbatim>\<open>os.getcwd()\<close> fails when the working directory no longer exists.\<close>

definition os_getcwd :: "os_state \<Rightarrow> error + string" where
  "os_getcwd st =
     (if cwd st \<in> dirs st then Inr (cwd st) else Inl (OSError [''getcwd'']))"

text \<open>\<^verbatim>\<open>os.chdir(p)\<close> fails when \<open>p\<close> is not an existing directory.\<close>

definition os_chdir :: "string \<Rightarrow> os_state \<Rightarrow> (error + unit) \<times> os_state" where
  "os_chdir p st =
     (if p \<in> dirs st then (Inr (), (log_event (Chdir p) st)\<lparr>cwd := p\<rparr>)
      else (Inl (OSError [''chdir'', p]), log_event (Chdir p) st))"

text \<open>\<^verbatim>\<open>os.path.exists(p)\<close>; a path names a directory or a file as it is written.\<close>

definition path_exists :: "string \<Rightarrow> os_state \<Rightarrow> bool" where
  "path_exists p st = (p \<in> dirs st \<or> files st p \<noteq> None)"

text \<open>\<^verbatim>\<open>os.path.join(a, b)\<close> for a relative \<open>b\<close>, with the separator \<^verbatim>\<open>os.sep\<close>.\<close>

definition path_join :: "char \<Rightarrow> string \<Rightarrow> string \<Rightarrow> string" where
  "path_join s a b =
     (if a = [] then b else if last a = s then a @ b else a @ s # b)"

text \<open>
  Modelled from the spec: \<^verbatim>\<open>commoncode.fileutils.get_temp_dir\<close> is not among the
  sources. The spec's temporary-directory allocator returns a fresh, writable directory
  path on each call: the directory exists afterwards, and the platform picks its name.
\<close>

definition os_get_temp_dir :: "platform \<Rightarrow> string \<Rightarrow> os_state \<Rightarrow> string \<times> os_state" where
  "os_get_temp_dir W prefix st =
     (let d = get_temp_dir W prefix st
      in (d, (log_event (Mkdtemp d) st)\<lparr>dirs := insert d (dirs st)\<rparr>))"

text \<open>\<^verbatim>\<open>io.open(p, mode='w', encoding='utf-8')\<close> in the fresh directory: the file
  exists and is empty afterwards.\<close>

definition io_open_w :: "string \<Rightarrow> os_state \<Rightarrow> os_state" where
  "io_open_w p st = (log_event (Open_write p) st)\<lparr>files := (files st)(p \<mapsto> [])\<rparr>"

text \<open>\<^verbatim>\<open>open(p, 'rb').read()\<close>.\<close>

definition read_file :: "string \<Rightarrow> os_state \<Rightarrow> (error + string) \<times> os_state" where
  "read_file p st =
     (case files st p of
        None \<Rightarrow> (Inl (OSError [''open'', p]), log_event (Read_file p) st)
      | Some b \<Rightarrow> (Inr b, log_event (Read_file p) st))"

text \<open>\<^verbatim>\<open>subprocess.Popen(full_cmd, **popen_args)\<close>: either the spawn fails and no
  process object exists, or a child is running.\<close>

definition os_popen ::
  "platform \<Rightarrow> string list \<Rightarrow> popen_args \<Rightarrow> os_state \<Rightarrow> (error + child) \<times> os_state" where
  "os_popen W full_cmd pa st =
     (case spawn W full_cmd pa st of
        Inl e \<Rightarrow> (Inl e, log_event (Popen full_cmd pa) st)
      | Inr p \<Rightarrow>
          (Inr p, (log_event (Popen full_cmd pa) st)
                    \<lparr>running := insert (child_pid p) (running st)\<rparr>))"

text \<open>\<^verbatim>\<open>proc.communicate()\<close>: the child writes its output to the two files it was
  given, exits and is reaped.\<close>

definition communicate :: "child \<Rightarrow> popen_args \<Rightarrow> os_state \<Rightarrow> os_state" where
  "communicate p pa st =
     (log_event (Wait (child_pid p)) st)
       \<lparr>files := (files st)(popen_stdout pa \<mapsto> child_stdout p,
                              popen_stderr pa \<mapsto> child_stderr p),
        running := running st - {child_pid p}\<rparr>"

text \<open>\<^verbatim>\<open>ctypes.CDLL(dll_path)\<close>.\<close>

definition os_dlopen :: "platform \<Rightarrow> string \<Rightarrow> os_state \<Rightarrow> (error + cdll) \<times> os_state" where
  "os_dlopen W p st = (dlopen W p st, log_event (Dlopen p) st)"

subsection \<open>pushd\<close>

text \<open>
  The \<^verbatim>\<open>finally\<close> clause of \<^verbatim>\<open>pushd\<close>: change back to the recorded directory. An error
  of \<^verbatim>\<open>os.chdir\<close> here replaces the outcome \<open>r\<close> of the block.
\<close>

definition pushd_finally ::
  "string \<Rightarrow> error + 'a \<Rightarrow> 'l \<Rightarrow> os_state \<Rightarrow> (error + 'a) \<times> 'l \<times> os_state" where
  "pushd_finally original_cwd r l st =
     (case os_chdir original_cwd st of
        (Inl e, st') \<Rightarrow> (Inl e, l, st')
      | (Inr _, st') \<Rightarrow> (r, l, st'))"

text \<open>
  \<^verbatim>\<open>with pushd(path): block\<close>. The block gets the value the context manager yields,
  the local variables \<open>l\<close> it may assign and the process state; it leaves with an outcome
  (\<open>Inl\<close> for a raised error, \<open>Inr\<close> for a normal end or an early \<^verbatim>\<open>return\<close>, which the
  context manager cannot tell apart), the locals and the state. An error before the
  \<^verbatim>\<open>yield\<close> means that the block never runs.
\<close>

definition pushd ::
  "string option \<Rightarrow> (string \<Rightarrow> 'l \<Rightarrow> os_state \<Rightarrow> (error + 'a) \<times> 'l \<times> os_state) \<Rightarrow>
     'l \<Rightarrow> os_state \<Rightarrow> (error + 'a) \<times> 'l \<times> os_state" where
  "pushd path block l st =
     (case os_getcwd st of
        Inl e \<Rightarrow> (Inl e, l, st)
      | Inr original_cwd \<Rightarrow>
          (case os_chdir (str_or path original_cwd) st of
             (Inl e, st1) \<Rightarrow> pushd_finally original_cwd (Inl e) l st1
           | (Inr _, st1) \<Rightarrow>
               (case os_getcwd st1 of
                  Inl e \<Rightarrow> pushd_finally original_cwd (Inl e) l st1
                | Inr d \<Rightarrow>
                    (case block d l st1 of
                       (r, l2, st2) \<Rightarrow> pushd_finally original_cwd r l2 st2))))"

subsection \<open>get_env\<close>

definition LD_LIBRARY_PATH :: string where
  "LD_LIBRARY_PATH = ''LD_LIBRARY_PATH''"

definition DYLD_LIBRARY_PATH :: string where
  "DYLD_LIBRARY_PATH = ''DYLD_LIBRARY_PATH''"

text \<open>
  Modelled from the spec: \<^verbatim>\<open>commoncode.text.as_unicode\<close> is not among the sources. The
  spec says that all keys and values are normalized to a canonical text representation;
  the strings of this model are text already, which the normalization leaves as it is.
\<close>

definition as_unicode :: "string \<Rightarrow> string" where
  "as_unicode s = s"

text \<open>
  \<^verbatim>\<open>get_env(base_vars, lib_dir)\<close>, reading \<^verbatim>\<open>os.environ\<close> from the state. The merged
  value is text whenever the new path is non-empty, which it is under the test
  \<^verbatim>\<open>lib_dir and on_posix\<close>. The final comprehension normalizes the values; the keys
  are text.
\<close>

definition get_env ::
  "platform \<Rightarrow> (string \<rightharpoonup> string) option \<Rightarrow> string option \<Rightarrow> os_state \<Rightarrow>
     (string \<rightharpoonup> string)" where
  "get_env W base_vars lib_dir st =
     (let env_vars0 =
            (case base_vars of
               None \<Rightarrow> Map.empty
             | Some b \<Rightarrow> if b = Map.empty then Map.empty else Map.empty ++ b);
          env_vars1 =
            (if truthy lib_dir \<and> on_posix W
             then
               (let new_path = py_str lib_dir;
                    ld_lib_path = environ st LD_LIBRARY_PATH;
                    env_vars_ld =
                      env_vars0(LD_LIBRARY_PATH \<mapsto>
                        py_str (update_path_var (pathsep W) ld_lib_path (Some new_path)));
                    dyld_lib_path = environ st DYLD_LIBRARY_PATH
                in env_vars_ld(DYLD_LIBRARY_PATH \<mapsto>
                     py_str (update_path_var (pathsep W) dyld_lib_path (Some new_path))))
             else env_vars0)
      in map_option as_unicode \<circ> env_vars1)"

subsection \<open>close\<close>

text \<open>
  \<^verbatim>\<open>close(proc)\<close>. The process object of \<^verbatim>\<open>execute2\<close> has no pipes (its streams are
  files), so the three \<^verbatim>\<open>close_pipe\<close> calls return at once; the kill is attempted and
  its failure swallowed; \<^verbatim>\<open>proc.wait()\<close> reaps the child.
\<close>

definition close :: "child option \<Rightarrow> os_state \<Rightarrow> os_state" where
  "close proc st =
     (case proc of
        None \<Rightarrow> st
      | Some p \<Rightarrow>
          (log_event (Wait (child_pid p)) (log_event (Kill (child_pid p)) st))
            \<lparr>running := running st - {child_pid p}\<rparr>)"

subsection \<open>execute2\<close>

text \<open>The statements under \<^verbatim>\<open>with pushd(lib_dir)\<close>; the locals are \<^verbatim>\<open>proc\<close> and
  \<^verbatim>\<open>rc\<close>. A process object is always true, so \<^verbatim>\<open>rc\<close> is its return code.\<close>

definition execute2_block ::
  "platform \<Rightarrow> string list \<Rightarrow> popen_args \<Rightarrow> string \<Rightarrow> child option \<times> int \<Rightarrow> os_state \<Rightarrow>
     (error + unit) \<times> (child option \<times> int) \<times> os_state" where
  "execute2_block W full_cmd pa d l st =
     (case os_popen W full_cmd pa st of
        (Inl e, st1) \<Rightarrow> (Inl e, l, st1)
      | (Inr p, st1) \<Rightarrow>
          (Inr (), (Some p, child_returncode p), communicate p pa st1))"

text \<open>
  \<^verbatim>\<open>execute2(cmd_loc, args, lib_dir, cwd, env, to_files)\<close> with \<^verbatim>\<open>log\<close> false (its
  default; logging only prints) and assertions on (the interpreter's default). The
  \<^verbatim>\<open>try\<close> has a \<^verbatim>\<open>finally\<close> and no \<^verbatim>\<open>except\<close>: \<^verbatim>\<open>close(proc)\<close> runs on every
  path, and an error of the block goes on to the caller. Leaving the outer \<^verbatim>\<open>with\<close>
  closes the two files, which changes nothing in the state.
\<close>

definition execute2 ::
  "platform \<Rightarrow> string option \<Rightarrow> string list option \<Rightarrow> string option \<Rightarrow> string option \<Rightarrow>
     (string \<rightharpoonup> string) option \<Rightarrow> bool \<Rightarrow> os_state \<Rightarrow>
     (error + int \<times> string \<times> string) \<times> os_state" where
  "execute2 W cmd_loc args lib_dir cwd_arg env_arg to_files st =
     (if \<not> truthy cmd_loc then (Inl AssertionError, st)
      else
        (let full_cmd = py_str cmd_loc # (case args of None \<Rightarrow> [] | Some a \<Rightarrow> a);
             built = get_env W env_arg lib_dir st;
             env = (if built = Map.empty then None else Some built);
             cwd1 = str_or cwd_arg (curr_dir W);
             (tmp_dir, st1) = os_get_temp_dir W ''cmd-'' st;
             sop = path_join (os_sep W) tmp_dir ''stdout'';
             sep = path_join (os_sep W) tmp_dir ''stderr'';
             shell = on_windows W;
             st2 = io_open_w sop st1;
             st3 = io_open_w sep st2;
             pa = \<lparr>popen_cwd = cwd1, popen_env = env, popen_stdout = sop,
                   popen_stderr = sep, popen_shell = shell, popen_bufsize = - 1,
                   popen_universal_newlines = True\<rparr>;
             (r, (proc, rc), st4) = pushd lib_dir (execute2_block W full_cmd pa) (None, 100) st3;
             st5 = close proc st4
         in case r of
              Inl e \<Rightarrow> (Inl e, st5)
            | Inr _ \<Rightarrow>
                if to_files then (Inr (rc, sop, sep), st5)
                else
                  (case read_file sop st5 of
                     (Inl e, st6) \<Rightarrow> (Inl e, st6)
                   | (Inr so, st6) \<Rightarrow>
                       (case read_file sep st6 of
                          (Inl e, st7) \<Rightarrow> (Inl e, st7)
                        | (Inr se, st7) \<Rightarrow>
                            (Inr (rc, toascii W (bytes_strip so), toascii W (bytes_strip se)),
                             st7)))))"

subsection \<open>load_shared_library\<close>

text \<open>The statement under \<^verbatim>\<open>with pushd(lib_dir)\<close>; the local is \<^verbatim>\<open>lib\<close>.\<close>

definition load_block ::
  "platform \<Rightarrow> string \<Rightarrow> string \<Rightarrow> cdll option \<Rightarrow> os_state \<Rightarrow>
     (error + unit) \<times> cdll option \<times> os_state" where
  "load_block W dll d lib st =
     (case os_dlopen W dll st of
        (Inl e, st1) \<Rightarrow> (Inl e, lib, st1)
      | (Inr h, st1) \<Rightarrow> (Inr (), Some h, st1))"

text \<open>
  \<^verbatim>\<open>load_shared_library(dll_path, lib_dir)\<close>. The path is text, so the
  \<^verbatim>\<open>os.fsdecode\<close> step does nothing. An \<^verbatim>\<open>OSError\<close> from the block or from the
  directory switch gets four more \<^verbatim>\<open>args\<close> and is raised again.
\<close>

definition load_shared_library ::
  "platform \<Rightarrow> string option \<Rightarrow> string option \<Rightarrow> os_state \<Rightarrow> (error + cdll) \<times> os_state" where
  "load_shared_library W dll_path lib_dir st =
     (if \<not> truthy dll_path then (Inl (ImportError Dll_path_missing dll_path lib_dir), st)
      else if \<not> path_exists (py_str dll_path) st
        then (Inl (ImportError Dll_path_missing dll_path lib_dir), st)
      else if truthy lib_dir \<and> \<not> path_exists (py_str lib_dir) st
        then (Inl (ImportError Lib_dir_missing dll_path lib_dir), st)
      else
        (case pushd lib_dir (load_block W (py_str dll_path)) None st of
           (Inl (OSError a), lib, st1) \<Rightarrow>
             (Inl (OSError (a @
                [''ctypes.CDLL(dll_path): '' @ py_str dll_path,
                 ''lib_dir: '' @ py_str lib_dir,
                 ''os.environ:'' @ CHR 0x0A # pformat_environ W (environ st1),
                 format_exc W (OSError a)])), st1)
         | (Inl e, lib, st1) \<Rightarrow> (Inl e, st1)
         | (Inr _, lib, st1) \<Rightarrow>
             (case lib of
                None \<Rightarrow> (Inl (ImportError Load_failed dll_path lib_dir), st1)
              | Some h \<Rightarrow>
                  if cdll_name h \<noteq> [] then (Inr h, st1)
                  else (Inl (ImportError Load_failed dll_path lib_dir), st1))))"

subsection \<open>Reading the trace\<close>

text \<open>The spawn calls and the file reads of a trace, in order.\<close>

fun popen_events :: "event list \<Rightarrow> (string list \<times> popen_args) list" where
  "popen_events [] = []"
| "popen_events (Popen c a # evs) = (c, a) # popen_events evs"
| "popen_events (ev # evs) = popen_events evs"

fun read_events :: "event list \<Rightarrow> string list" where
  "read_events [] = []"
| "read_events (Read_file p # evs) = p # read_events evs"
| "read_events (ev # evs) = read_events evs"

subsection \<open>A sample platform and state\<close>

text \<open>
  A POSIX platform on which \<^verbatim>\<open>/app/bin/tool\<close> is the only executable: it prints
  two spaces, \<open>X\<close> and a newline to its standard output, \<open>Y\<close> and a newline to its standard
  error, and exits with code 7. A second executable, \<^verbatim>\<open>/app/bin/latin\<close>, prints the
  byte \<open>0xE9\<close>, \<open>X\<close> and a newline and exits with code 0. Spawning anything else fails.
  The replacement for every non-ASCII byte is a question mark.
\<close>

definition demo_tool :: child where
  "demo_tool =
     \<lparr>child_pid = 4242, child_returncode = 7,
      child_stdout = [CHR 0x20, CHR 0x20, CHR ''X'', CHR 0x0A],
      child_stderr = [CHR ''Y'', CHR 0x0A]\<rparr>"

definition demo_latin :: child where
  "demo_latin =
     \<lparr>child_pid = 4243, child_returncode = 0,
      child_stdout = [CHR 0xE9, CHR ''X'', CHR 0x0A],
      child_stderr = []\<rparr>"

definition demo_spawn :: "string list \<Rightarrow> popen_args \<Rightarrow> os_state \<Rightarrow> error + child" where
  "demo_spawn full_cmd pa st =
     (case full_cmd of
        [] \<Rightarrow> Inl (OSError [''No such file or directory''])
      | c # _ \<Rightarrow>
          if c = ''/app/bin/tool'' then Inr demo_tool
          else if c = ''/app/bin/latin'' then Inr demo_latin
          else Inl (OSError [''No such file or directory'', c]))"

definition demo_platform :: platform where
  "demo_platform =
     \<lparr>on_posix = True, on_windows = False, pathsep = CHR '':'', os_sep = CHR ''/'',
      curr_dir = ''/app'',
      get_temp_dir = (\<lambda>prefix st. ''/tmp/'' @ prefix @ ''0''),
      ascii_escape = (\<lambda>c. ''?''),
      spawn = demo_spawn,
      dlopen = (\<lambda>p st. Inr \<lparr>cdll_name = p, cdll_handle = 1\<rparr>),
      pformat_environ = (\<lambda>e. []),
      format_exc = (\<lambda>e. [])\<rparr>"

definition demo_state :: os_state where
  "demo_state =
     \<lparr>cwd = ''/home/user'',
      dirs = {''/home/user'', ''/app'', ''/app/lib''},
      files = [''/app/lib/libfoo.so'' \<mapsto> []],
      environ = [''LD_LIBRARY_PATH'' \<mapsto> ''/usr/lib''],
      running = {},
      trace = []\<rparr>"

text \<open>A block that changes the directory and then raises, and one that removes the
  directory \<^verbatim>\<open>/home/user\<close> and then raises.\<close>

definition demo_block_rmdir ::
  "string \<Rightarrow> nat \<Rightarrow> os_state \<Rightarrow> (error + unit) \<times> nat \<times> os_state" where
  "demo_block_rmdir d l st =
     (Inl (OSError [''boom'']), l, st\<lparr>dirs := dirs st - {''/home/user''}\<rparr>)"

definition demo_block :: "string \<Rightarrow> nat \<Rightarrow> os_state \<Rightarrow> (error + unit) \<times> nat \<times> os_state" where
  "demo_block d l st = (Inl (OSError [''boom'']), Suc l, st\<lparr>cwd := ''/app''\<rparr>)"

subsection \<open>Properties of update_path_var\<close>

lemma str_split_not_Nil: "str_split c s \<noteq> []"
  by (induction s) (auto split: list.splits)

lemma str_join_Cons: "ps \<noteq> [] \<Longrightarrow> str_join c (p # ps) = p @ c # str_join c ps"
  by (cases ps) simp_all

lemma str_join_split: "str_join c (str_split c s) = s"
proof (induction s)
  case Nil
  show ?case by simp
next
  case (Cons x xs)
  obtain y ys where split_xs: "str_split c xs = y # ys"
    using str_split_not_Nil [of c xs] by (cases "str_split c xs") auto
  show ?case
  proof (cases "x = c")
    case True
    with Cons split_xs show ?thesis by simp
  next
    case False
    have "str_join c ((x # y) # ys) = x # str_join c (y # ys)"
      by (cases ys) simp_all
    with False Cons split_xs show ?thesis by simp
  qed
qed

text \<open>
  C3. With no existing variable and a new path \<^verbatim>\<open>/opt/lib\<close>, the merge returns
  \<^verbatim>\<open>/opt/lib:\<close>: the split of the empty string is the one-element list holding the
  empty string, so the \<^verbatim>\<open>not path_elements\<close> branch that would return the new path
  alone is never taken, and the join adds a trailing separator.
\<close>

theorem update_path_var_absent_trailing_sep:
  "update_path_var CHR '':'' None (Some ''/opt/lib'') = Some ''/opt/lib:''"
  by (simp add: update_path_var_def)

text \<open>
  C8, as stated (for every new segment \<open>S\<close> that is not a segment of \<open>P\<close>, the merge is
  \<open>S\<close>, the separator, then \<open>P\<close>'s segments), fails at the empty segment: the guard
  \<^verbatim>\<open>if not new_path\<close> returns the existing value unchanged.
\<close>

theorem update_path_var_prepend_counterexample:
  "[] \<notin> set (str_split CHR '':'' ''a'') \<and>
   update_path_var CHR '':'' (Some ''a'') (Some []) = Some ''a'' \<and>
   update_path_var CHR '':'' (Some ''a'') (Some []) \<noteq>
     Some ([] @ CHR '':'' # str_join CHR '':'' (str_split CHR '':'' ''a''))"
  by (simp add: update_path_var_def)

text \<open>
  C8, amended: for every existing string \<open>P\<close> and every non-empty new segment \<open>S\<close> that is
  not one of \<open>P\<close>'s separator-delimited segments, the merge is \<open>S\<close>, then the separator,
  then all of \<open>P\<close>'s segments in their order, joined by the separator (which is \<open>P\<close>
  itself).
\<close>

theorem update_path_var_prepend:
  assumes "S \<noteq> []" and "S \<notin> set (str_split sep P)"
  shows "update_path_var sep (Some P) (Some S) =
           Some (S @ sep # str_join sep (str_split sep P)) \<and>
         str_join sep (str_split sep P) = P"
proof -
  have "str_or (Some P) [] = P" by simp
  with assms show ?thesis
    by (simp add: update_path_var_def Let_def str_split_not_Nil str_join_Cons str_join_split)
qed

theorem update_path_var_prepend_witness:
  "''/opt/lib'' \<noteq> [] \<and> ''/opt/lib'' \<notin> set (str_split CHR '':'' ''/usr/lib:/lib'') \<and>
   update_path_var CHR '':'' (Some ''/usr/lib:/lib'') (Some ''/opt/lib'') =
     Some ''/opt/lib:/usr/lib:/lib''"
proof -
  have ne: "''/opt/lib'' \<noteq> []" by simp
  have notin: "''/opt/lib'' \<notin> set (str_split CHR '':'' ''/usr/lib:/lib'')" by simp
  from update_path_var_prepend [OF ne notin] ne notin show ?thesis by simp
qed

text \<open>
  C9. For every existing string \<open>P\<close> and new segment \<open>S\<close> that is already one of \<open>P\<close>'s
  separator-delimited segments, the merge returns \<open>P\<close> unchanged.
\<close>

theorem update_path_var_present:
  assumes "S \<in> set (str_split sep P)"
  shows "update_path_var sep (Some P) (Some S) = Some P"
  using assms by (simp add: update_path_var_def Let_def str_split_not_Nil)

theorem update_path_var_present_witness:
  "''/lib'' \<in> set (str_split CHR '':'' ''/usr/lib:/lib'') \<and>
   update_path_var CHR '':'' (Some ''/usr/lib:/lib'') (Some ''/lib'') = Some ''/usr/lib:/lib''"
proof -
  have mem: "''/lib'' \<in> set (str_split CHR '':'' ''/usr/lib:/lib'')" by simp
  from update_path_var_present [OF mem] mem show ?thesis by simp
qed

subsection \<open>Properties of get_env\<close>

lemma update_path_var_text:
  "np \<noteq> [] \<Longrightarrow> Some (py_str (update_path_var s e (Some np))) = update_path_var s e (Some np)"
  by (simp add: update_path_var_def Let_def)

lemma map_option_as_unicode: "map_option as_unicode = (\<lambda>v. v)"
proof
  fix v :: "string option"
  show "map_option as_unicode v = v" by (cases v) (simp_all add: as_unicode_def)
qed

lemma get_env_empty:
  assumes "\<not> (truthy lib_dir \<and> on_posix W)"
  shows "get_env W None lib_dir st = Map.empty"
  using assms by (auto simp add: get_env_def Let_def)

text \<open>
  C6. On a POSIX platform, for every base map holding \<open>K \<mapsto> V\<close> with \<open>K\<close> neither of the
  two library-search-path variables, and every (non-empty) library directory, the map
  \<^verbatim>\<open>get_env\<close> returns still maps \<open>K\<close> to \<open>V\<close>, and maps each of the two variables to
  the merge of its value in \<^verbatim>\<open>os.environ\<close> with the library directory, whatever the
  base map held for them.
\<close>

theorem get_env_keeps_and_sets:
  assumes "on_posix W" and "lib_dir \<noteq> []" and "base K = Some V"
    and "K \<noteq> LD_LIBRARY_PATH" and "K \<noteq> DYLD_LIBRARY_PATH"
  shows "get_env W (Some base) (Some lib_dir) st K = Some V \<and>
         get_env W (Some base) (Some lib_dir) st LD_LIBRARY_PATH =
           update_path_var (pathsep W) (environ st LD_LIBRARY_PATH) (Some lib_dir) \<and>
         get_env W (Some base) (Some lib_dir) st DYLD_LIBRARY_PATH =
           update_path_var (pathsep W) (environ st DYLD_LIBRARY_PATH) (Some lib_dir)"
proof -
  have ne: "LD_LIBRARY_PATH \<noteq> DYLD_LIBRARY_PATH"
    by (simp add: LD_LIBRARY_PATH_def DYLD_LIBRARY_PATH_def)
  from assms ne show ?thesis
    by (auto simp add: get_env_def Let_def map_option_as_unicode update_path_var_text)
qed

theorem get_env_keeps_and_sets_witness:
  "get_env demo_platform (Some [''HOME'' \<mapsto> ''/home/user'', ''LD_LIBRARY_PATH'' \<mapsto> ''/stale''])
     (Some ''/app/lib'') demo_state ''HOME'' = Some ''/home/user'' \<and>
   get_env demo_platform (Some [''HOME'' \<mapsto> ''/home/user'', ''LD_LIBRARY_PATH'' \<mapsto> ''/stale''])
     (Some ''/app/lib'') demo_state LD_LIBRARY_PATH = Some ''/app/lib:/usr/lib'' \<and>
   get_env demo_platform (Some [''HOME'' \<mapsto> ''/home/user'', ''LD_LIBRARY_PATH'' \<mapsto> ''/stale''])
     (Some ''/app/lib'') demo_state DYLD_LIBRARY_PATH = Some ''/app/lib:''"
proof -
  let ?base = "[''HOME'' \<mapsto> ''/home/user'', ''LD_LIBRARY_PATH'' \<mapsto> ''/stale'']"
  have posix: "on_posix demo_platform" by (simp add: demo_platform_def)
  have dir: "''/app/lib'' \<noteq> []" by simp
  have base: "?base ''HOME'' = Some ''/home/user''" by simp
  have k1: "''HOME'' \<noteq> LD_LIBRARY_PATH" by (simp add: LD_LIBRARY_PATH_def)
  have k2: "''HOME'' \<noteq> DYLD_LIBRARY_PATH" by (simp add: DYLD_LIBRARY_PATH_def)
  have merged: "update_path_var (pathsep demo_platform)
      (environ demo_state LD_LIBRARY_PATH) (Some ''/app/lib'') = Some ''/app/lib:/usr/lib''"
    by (simp add: demo_platform_def demo_state_def LD_LIBRARY_PATH_def update_path_var_def)
  have merged_dyld: "update_path_var (pathsep demo_platform)
      (environ demo_state DYLD_LIBRARY_PATH) (Some ''/app/lib'') = Some ''/app/lib:''"
    by (simp add: demo_platform_def demo_state_def DYLD_LIBRARY_PATH_def update_path_var_def)
  note inst = get_env_keeps_and_sets [where W = demo_platform and lib_dir = "''/app/lib''"
      and base = ?base and K = "''HOME''" and V = "''/home/user''" and st = demo_state]
  from inst [OF posix dir base k1 k2] merged merged_dyld
  show ?thesis by simp
qed

subsection \<open>Properties of pushd\<close>

text \<open>
  C1, as stated (the working directory is restored for every outcome of the block),
  fails for a block that removes the directory recorded at entry: the \<^verbatim>\<open>os.chdir\<close> of
  the \<^verbatim>\<open>finally\<close> clause raises, the working directory stays where the switch put it,
  and the error of \<^verbatim>\<open>os.chdir\<close> replaces the error of the block.
\<close>

theorem pushd_restores_cwd_counterexample:
  "cwd demo_state = ''/home/user'' \<and>
   cwd (snd (snd (pushd (Some ''/app/lib'') demo_block_rmdir 0 demo_state))) = ''/app/lib'' \<and>
   fst (pushd (Some ''/app/lib'') demo_block_rmdir 0 demo_state) =
     Inl (OSError [''chdir'', ''/home/user''])"
  by (simp add: pushd_def pushd_finally_def os_getcwd_def os_chdir_def log_event_def
        demo_block_rmdir_def demo_state_def)

text \<open>
  C1, amended: for every target directory (absent, empty, missing or existing) and every
  outcome of the block, the working directory after \<^verbatim>\<open>with pushd(path)\<close> is the one
  recorded before it, provided the block does not remove the recorded directory. When
  the switch succeeds, the outcome of the block, an error included, is what the caller
  gets, together with the restored state: the directory is changed back before the error
  goes on.
\<close>

theorem pushd_restores_cwd:
  assumes keeps: "\<And>d l1 s. cwd st \<in> dirs s \<Longrightarrow> cwd st \<in> dirs (snd (snd (block d l1 s)))"
  shows "cwd (snd (snd (pushd path block l st))) = cwd st \<and>
         (cwd st \<in> dirs st \<and> str_or path (cwd st) \<in> dirs st \<longrightarrow>
            fst (pushd path block l st) =
              fst (block (str_or path (cwd st)) l
                     ((log_event (Chdir (str_or path (cwd st))) st)
                        \<lparr>cwd := str_or path (cwd st)\<rparr>)))"
proof (cases "cwd st \<in> dirs st")
  case False
  then show ?thesis by (simp add: pushd_def os_getcwd_def)
next
  case True
  let ?t = "str_or path (cwd st)"
  show ?thesis
  proof (cases "?t \<in> dirs st")
    case False
    with True show ?thesis
      by (simp add: pushd_def os_getcwd_def os_chdir_def pushd_finally_def log_event_def)
  next
    case target: True
    let ?s1 = "(log_event (Chdir ?t) st)\<lparr>cwd := ?t\<rparr>"
    obtain r l2 s2 where blk: "block ?t l ?s1 = (r, l2, s2)"
      by (cases "block ?t l ?s1") auto
    have "cwd st \<in> dirs ?s1" using True by (simp add: log_event_def)
    from keeps [OF this, of ?t l] blk have "cwd st \<in> dirs s2" by simp
    with True target blk show ?thesis
      by (simp add: pushd_def os_getcwd_def os_chdir_def pushd_finally_def log_event_def)
  qed
qed

theorem pushd_restores_cwd_witness:
  "cwd (snd (snd (pushd (Some ''/app/lib'') demo_block 0 demo_state))) = ''/home/user'' \<and>
   fst (pushd (Some ''/app/lib'') demo_block 0 demo_state) = Inl (OSError [''boom''])"
proof -
  have keeps: "\<And>d l1 s. cwd demo_state \<in> dirs s \<Longrightarrow>
      cwd demo_state \<in> dirs (snd (snd (demo_block d l1 s)))"
    by (simp add: demo_block_def)
  have ok: "cwd demo_state \<in> dirs demo_state \<and>
      str_or (Some ''/app/lib'') (cwd demo_state) \<in> dirs demo_state"
    by (simp add: demo_state_def)
  from pushd_restores_cwd [of demo_state demo_block "Some ''/app/lib''" 0, OF keeps] ok
  show ?thesis by (simp add: demo_state_def demo_block_def)
qed

text \<open>The two blocks the module itself runs under \<^verbatim>\<open>pushd\<close> remove no directory.\<close>

lemma execute2_block_keeps_dirs: "dirs (snd (snd (execute2_block W fc pa d l s))) = dirs s"
  by (simp add: execute2_block_def os_popen_def communicate_def log_event_def split: sum.splits)

lemma load_block_keeps_dirs: "dirs (snd (snd (load_block W dll d lib s))) = dirs s"
  by (simp add: load_block_def os_dlopen_def log_event_def split: sum.splits)

subsection \<open>Properties of load_shared_library\<close>

text \<open>
  C5. If the library path is absent, empty or does not exist, or if a library directory
  is given and does not exist, \<^verbatim>\<open>load_shared_library\<close> raises an \<^verbatim>\<open>ImportError\<close> and
  the process state is the one it started from: no directory was changed and no load
  was attempted (the trace is unchanged), whatever the platform's loader would answer.
\<close>

theorem load_shared_library_validates:
  assumes "\<not> truthy dll_path \<or> \<not> path_exists (py_str dll_path) st \<or>
           (truthy lib_dir \<and> \<not> path_exists (py_str lib_dir) st)"
  shows "load_shared_library W dll_path lib_dir st =
           (Inl (ImportError
                   (if \<not> truthy dll_path then Dll_path_missing
                    else if \<not> path_exists (py_str dll_path) st then Dll_path_missing
                    else Lib_dir_missing)
                   dll_path lib_dir), st) \<and>
         trace (snd (load_shared_library W dll_path lib_dir st)) = trace st"
  using assms by (auto simp add: load_shared_library_def)

theorem load_shared_library_validates_witness:
  "\<not> path_exists ''/app/lib/missing.so'' demo_state \<and>
   load_shared_library demo_platform (Some ''/app/lib/missing.so'') (Some ''/app/lib'') demo_state =
     (Inl (ImportError Dll_path_missing (Some ''/app/lib/missing.so'') (Some ''/app/lib'')),
      demo_state) \<and>
   \<not> path_exists ''/no/such/dir'' demo_state \<and>
   fst (load_shared_library demo_platform (Some ''/app/lib/libfoo.so'') (Some ''/no/such/dir'')
          demo_state) =
     Inl (ImportError Lib_dir_missing (Some ''/app/lib/libfoo.so'') (Some ''/no/such/dir''))"
proof -
  have no_dll: "\<not> path_exists ''/app/lib/missing.so'' demo_state"
    by (simp add: path_exists_def demo_state_def)
  have no_dir: "\<not> path_exists ''/no/such/dir'' demo_state"
    by (simp add: path_exists_def demo_state_def)
  have dll: "path_exists ''/app/lib/libfoo.so'' demo_state"
    by (simp add: path_exists_def demo_state_def)
  have h1: "\<not> truthy (Some ''/app/lib/missing.so'') \<or>
      \<not> path_exists (py_str (Some ''/app/lib/missing.so'')) demo_state \<or>
      (truthy (Some ''/app/lib'') \<and> \<not> path_exists (py_str (Some ''/app/lib'')) demo_state)"
    using no_dll by simp
  have h2: "\<not> truthy (Some ''/app/lib/libfoo.so'') \<or>
      \<not> path_exists (py_str (Some ''/app/lib/libfoo.so'')) demo_state \<or>
      (truthy (Some ''/no/such/dir'') \<and>
       \<not> path_exists (py_str (Some ''/no/such/dir'')) demo_state)"
    using no_dir by simp
  from load_shared_library_validates [OF h1, of demo_platform]
    load_shared_library_validates [OF h2, of demo_platform] no_dll no_dir dll
  show ?thesis by simp
qed

subsection \<open>Properties of execute2\<close>

lemma popen_events_append: "popen_events (xs @ ys) = popen_events xs @ popen_events ys"
  by (induction xs rule: popen_events.induct) simp_all

lemma read_events_append: "read_events (xs @ ys) = read_events xs @ read_events ys"
  by (induction xs rule: read_events.induct) simp_all

lemma path_join_out_err: "path_join s t ''stdout'' \<noteq> path_join s t ''stderr''"
  by (simp add: path_join_def)

text \<open>The state in which the directory switch of \<^verbatim>\<open>execute2\<close> starts.\<close>

lemma entry_state:
  fixes W st
  defines "tmp \<equiv> get_temp_dir W ''cmd-'' st"
  defines "s3 \<equiv> io_open_w (path_join (os_sep W) tmp ''stderr'')
                  (io_open_w (path_join (os_sep W) tmp ''stdout'')
                     (snd (os_get_temp_dir W ''cmd-'' st)))"
  shows "cwd s3 = cwd st" and "dirs s3 = insert tmp (dirs st)" and "running s3 = running st"
    and "popen_events (trace s3) = popen_events (trace st)"
    and "read_events (trace s3) = read_events (trace st)"
  by (simp_all add: s3_def tmp_def io_open_w_def os_get_temp_dir_def log_event_def Let_def
        popen_events_append read_events_append)

lemma close_fields:
  "cwd (close proc s) = cwd s" "files (close proc s) = files s"
  "read_events (trace (close proc s)) = read_events (trace s)"
  "popen_events (trace (close proc s)) = popen_events (trace s)"
  "running (close (Some p) s) = running s - {child_pid p}"
  "close None s = s"
  by (cases proc; simp add: close_def log_event_def read_events_append popen_events_append)+

text \<open>\<^verbatim>\<open>execute2\<close> after the directory switch and its block have come back.\<close>

lemma execute2_unfold:
  fixes W cmd_loc args lib_dir cwd_arg env_arg st
  defines "tmp \<equiv> get_temp_dir W ''cmd-'' st"
  defines "sop \<equiv> path_join (os_sep W) tmp ''stdout''"
  defines "sep \<equiv> path_join (os_sep W) tmp ''stderr''"
  defines "built \<equiv> get_env W env_arg lib_dir st"
  defines "full_cmd \<equiv> py_str cmd_loc # (case args of None \<Rightarrow> [] | Some a \<Rightarrow> a)"
  defines "pa \<equiv> \<lparr>popen_cwd = str_or cwd_arg (curr_dir W),
                   popen_env = (if built = Map.empty then None else Some built),
                   popen_stdout = sop, popen_stderr = sep,
                   popen_shell = on_windows W, popen_bufsize = - 1,
                   popen_universal_newlines = True\<rparr>"
  defines "s3 \<equiv> io_open_w sep (io_open_w sop (snd (os_get_temp_dir W ''cmd-'' st)))"
  assumes cmd: "truthy cmd_loc"
    and run: "pushd lib_dir (execute2_block W full_cmd pa) (None, 100) s3 = (r, (proc, rc), s4)"
  shows "execute2 W cmd_loc args lib_dir cwd_arg env_arg to_files st =
     (case r of
        Inl e \<Rightarrow> (Inl e, close proc s4)
      | Inr u \<Rightarrow>
          if to_files then (Inr (rc, sop, sep), close proc s4)
          else
            (case read_file sop (close proc s4) of
               (Inl e, st6) \<Rightarrow> (Inl e, st6)
             | (Inr so, st6) \<Rightarrow>
                 (case read_file sep st6 of
                    (Inl e, st7) \<Rightarrow> (Inl e, st7)
                  | (Inr se, st7) \<Rightarrow>
                      (Inr (rc, toascii W (bytes_strip so), toascii W (bytes_strip se)), st7))))"
proof -
  have tmp: "os_get_temp_dir W ''cmd-'' st = (tmp, snd (os_get_temp_dir W ''cmd-'' st))"
    by (simp add: os_get_temp_dir_def Let_def tmp_def)
  show ?thesis
    unfolding execute2_def
    apply (subst tmp)
    using cmd run
    unfolding tmp_def sop_def sep_def built_def full_cmd_def pa_def s3_def Let_def
    apply (simp only: if_False if_True not_True_eq_False prod.case simp_thms)
    done
qed

lemma pushd_block_spawn_ok:
  assumes ok: "\<And>a s'. spawn W fc a s' = Inr p"
    and here: "cwd s \<in> dirs s" and target: "str_or lib_dir (cwd s) \<in> dirs s"
  shows "\<exists>s4. pushd lib_dir (execute2_block W fc pa) l s =
                 (Inr (), (Some p, child_returncode p), s4) \<and>
              files s4 = (files s)(popen_stdout pa \<mapsto> child_stdout p,
                                   popen_stderr pa \<mapsto> child_stderr p) \<and>
              read_events (trace s4) = read_events (trace s) \<and>
              cwd s4 = cwd s \<and> running s4 = running s - {child_pid p}"
  using here target
  by (simp add: pushd_def os_getcwd_def os_chdir_def pushd_finally_def log_event_def
        execute2_block_def os_popen_def communicate_def read_events_append ok)

lemma pushd_block_spawn_fails:
  assumes fails: "\<And>a s'. spawn W fc a s' = Inl e"
  shows "\<exists>e' s4. pushd lib_dir (execute2_block W fc pa) l s = (Inl e', l, s4) \<and>
              cwd s4 = cwd s \<and> running s4 = running s \<and>
              (cwd s \<in> dirs s \<and> str_or lib_dir (cwd s) \<in> dirs s \<longrightarrow> e' = e)"
  by (simp add: pushd_def os_getcwd_def os_chdir_def pushd_finally_def log_event_def
        execute2_block_def os_popen_def fails)

lemma pushd_block_popens:
  "popen_events (trace (snd (snd (pushd lib_dir (execute2_block W fc pa) l s)))) =
     popen_events (trace s) @
       (if cwd s \<in> dirs s \<and> str_or lib_dir (cwd s) \<in> dirs s then [(fc, pa)] else [])"
  by (auto simp add: pushd_def os_getcwd_def os_chdir_def pushd_finally_def log_event_def
        execute2_block_def os_popen_def communicate_def popen_events_append
      split: sum.splits)

lemma reads_keep_popens:
  "popen_events (trace (snd
     (case read_file sop s of
        (Inl e, st6) \<Rightarrow> (Inl e, st6)
      | (Inr so, st6) \<Rightarrow>
          (case read_file sep st6 of
             (Inl e, st7) \<Rightarrow> (Inl e, st7)
           | (Inr se, st7) \<Rightarrow> (Inr (f so se), st7))))) = popen_events (trace s)"
  by (simp add: read_file_def log_event_def popen_events_append split: option.splits)

lemma execute2_popen_events:
  assumes cmd: "truthy cmd_loc"
  shows "popen_events (trace (snd (execute2 W cmd_loc args lib_dir cwd_arg env_arg to_files st))) =
     popen_events (trace st) @
       (if cwd st \<in> insert (get_temp_dir W ''cmd-'' st) (dirs st) \<and>
           str_or lib_dir (cwd st) \<in> insert (get_temp_dir W ''cmd-'' st) (dirs st)
        then [(py_str cmd_loc # (case args of None \<Rightarrow> [] | Some a \<Rightarrow> a),
               \<lparr>popen_cwd = str_or cwd_arg (curr_dir W),
                popen_env = (if get_env W env_arg lib_dir st = Map.empty then None
                             else Some (get_env W env_arg lib_dir st)),
                popen_stdout = path_join (os_sep W) (get_temp_dir W ''cmd-'' st) ''stdout'',
                popen_stderr = path_join (os_sep W) (get_temp_dir W ''cmd-'' st) ''stderr'',
                popen_shell = on_windows W, popen_bufsize = - 1,
                popen_universal_newlines = True\<rparr>)]
        else [])"
proof -
  let ?tmp = "get_temp_dir W ''cmd-'' st"
  let ?sop = "path_join (os_sep W) ?tmp ''stdout''"
  let ?sep = "path_join (os_sep W) ?tmp ''stderr''"
  let ?built = "get_env W env_arg lib_dir st"
  let ?fc = "py_str cmd_loc # (case args of None \<Rightarrow> [] | Some a \<Rightarrow> a)"
  let ?pa = "\<lparr>popen_cwd = str_or cwd_arg (curr_dir W),
              popen_env = (if ?built = Map.empty then None else Some ?built),
              popen_stdout = ?sop, popen_stderr = ?sep,
              popen_shell = on_windows W, popen_bufsize = - 1,
              popen_universal_newlines = True\<rparr>"
  let ?s3 = "io_open_w ?sep (io_open_w ?sop (snd (os_get_temp_dir W ''cmd-'' st)))"
  obtain r proc rc s4 where
    run: "pushd lib_dir (execute2_block W ?fc ?pa) (None, 100) ?s3 = (r, (proc, rc), s4)"
    by (cases "pushd lib_dir (execute2_block W ?fc ?pa) (None, 100) ?s3") auto
  have "popen_events (trace s4) =
      popen_events (trace ?s3) @
        (if cwd ?s3 \<in> dirs ?s3 \<and> str_or lib_dir (cwd ?s3) \<in> dirs ?s3 then [(?fc, ?pa)] else [])"
    using pushd_block_popens [of lib_dir W ?fc ?pa "(None, 100)" ?s3] run by simp
  then have s4: "popen_events (trace s4) =
      popen_events (trace st) @
        (if cwd st \<in> insert ?tmp (dirs st) \<and> str_or lib_dir (cwd st) \<in> insert ?tmp (dirs st)
         then [(?fc, ?pa)] else [])"
    by (simp only: entry_state)
  have "popen_events (trace (snd (execute2 W cmd_loc args lib_dir cwd_arg env_arg to_files st))) =
      popen_events (trace s4)"
    unfolding execute2_unfold [OF cmd run]
    by (cases r) (simp_all add: close_fields reads_keep_popens)
  with s4 show ?thesis by simp
qed

lemma execute2_runs:
  fixes W cmd_loc args lib_dir cwd_arg env_arg st
  defines "tmp \<equiv> get_temp_dir W ''cmd-'' st"
  defines "sop \<equiv> path_join (os_sep W) tmp ''stdout''"
  defines "sep \<equiv> path_join (os_sep W) tmp ''stderr''"
  assumes cmd: "truthy cmd_loc"
    and ok: "\<And>a s. spawn W (py_str cmd_loc # (case args of None \<Rightarrow> [] | Some xs \<Rightarrow> xs)) a s = Inr p"
    and here: "cwd st \<in> dirs st" and target: "str_or lib_dir (cwd st) \<in> dirs st"
  shows "\<exists>s5. files s5 sop = Some (child_stdout p) \<and> files s5 sep = Some (child_stderr p) \<and>
           read_events (trace s5) = read_events (trace st) \<and>
           cwd s5 = cwd st \<and> running s5 = running st - {child_pid p} \<and>
           execute2 W cmd_loc args lib_dir cwd_arg env_arg True st =
             (Inr (child_returncode p, sop, sep), s5) \<and>
           execute2 W cmd_loc args lib_dir cwd_arg env_arg False st =
             (Inr (child_returncode p, toascii W (bytes_strip (child_stdout p)),
                   toascii W (bytes_strip (child_stderr p))),
              log_event (Read_file sep) (log_event (Read_file sop) s5))"
proof -
  let ?built = "get_env W env_arg lib_dir st"
  let ?fc = "py_str cmd_loc # (case args of None \<Rightarrow> [] | Some xs \<Rightarrow> xs)"
  let ?pa = "\<lparr>popen_cwd = str_or cwd_arg (curr_dir W),
              popen_env = (if ?built = Map.empty then None else Some ?built),
              popen_stdout = path_join (os_sep W) (get_temp_dir W ''cmd-'' st) ''stdout'',
              popen_stderr = path_join (os_sep W) (get_temp_dir W ''cmd-'' st) ''stderr'',
              popen_shell = on_windows W, popen_bufsize = - 1,
              popen_universal_newlines = True\<rparr>"
  let ?s3 = "io_open_w (path_join (os_sep W) (get_temp_dir W ''cmd-'' st) ''stderr'')
               (io_open_w (path_join (os_sep W) (get_temp_dir W ''cmd-'' st) ''stdout'')
                  (snd (os_get_temp_dir W ''cmd-'' st)))"
  have here3: "cwd ?s3 \<in> dirs ?s3" and target3: "str_or lib_dir (cwd ?s3) \<in> dirs ?s3"
    using here target by (simp_all add: entry_state)
  from pushd_block_spawn_ok [of W ?fc p ?s3 lib_dir ?pa "(None, 100)", OF ok here3 target3]
  obtain s4 where
    run: "pushd lib_dir (execute2_block W ?fc ?pa) (None, 100) ?s3 =
            (Inr (), (Some p, child_returncode p), s4)"
    and files4: "files s4 = (files ?s3)(popen_stdout ?pa \<mapsto> child_stdout p,
                                      popen_stderr ?pa \<mapsto> child_stderr p)"
    and reads4: "read_events (trace s4) = read_events (trace ?s3)"
    and cwd4: "cwd s4 = cwd ?s3" and running4: "running s4 = running ?s3 - {child_pid p}"
    by blast
  let ?s5 = "close (Some p) s4"
  have out: "files ?s5 sop = Some (child_stdout p)" and err: "files ?s5 sep = Some (child_stderr p)"
    using path_join_out_err [of "os_sep W" tmp]
    by (simp_all add: close_fields files4 sop_def sep_def tmp_def)
  have reads: "read_events (trace ?s5) = read_events (trace st)"
    by (simp add: close_fields reads4 entry_state)
  have cwd5: "cwd ?s5 = cwd st"
    by (simp add: close_fields cwd4 entry_state)
  have running5: "running ?s5 = running st - {child_pid p}"
    by (auto simp add: close_fields running4 entry_state)
  have files_mode: "execute2 W cmd_loc args lib_dir cwd_arg env_arg True st =
      (Inr (child_returncode p, sop, sep), ?s5)"
    by (simp add: execute2_unfold [OF cmd run] sop_def sep_def tmp_def)
  have files_log: "files (log_event (Read_file sop) ?s5) = files ?s5"
    by (simp add: log_event_def)
  have inline_mode: "execute2 W cmd_loc args lib_dir cwd_arg env_arg False st =
      (Inr (child_returncode p, toascii W (bytes_strip (child_stdout p)),
            toascii W (bytes_strip (child_stderr p))),
       log_event (Read_file sep) (log_event (Read_file sop) ?s5))"
    using out err
    by (simp add: execute2_unfold [OF cmd run] read_file_def files_log
          sop_def [symmetric] sep_def [symmetric] tmp_def [symmetric])
  from out err reads cwd5 running5 files_mode inline_mode show ?thesis by blast
qed

lemmas model_defs =
  execute2_def execute2_block_def pushd_def pushd_finally_def os_getcwd_def os_chdir_def
  os_popen_def communicate_def close_def read_file_def io_open_w_def os_get_temp_dir_def
  log_event_def path_join_def get_env_def

lemmas demo_defs = demo_platform_def demo_state_def demo_spawn_def demo_tool_def

lemma toascii_is_ascii: "c \<in> set (toascii W b) \<Longrightarrow> is_ascii c"
  by (auto simp add: toascii_def split: if_splits)

lemma toascii_ascii_id: "\<forall>c \<in> set b. is_ascii c \<Longrightarrow> toascii W b = b"
  by (induction b) (simp_all add: toascii_def)

lemma set_bytes_strip: "set (bytes_strip b) \<subseteq> set b"
proof -
  have "set (bytes_rstrip (bytes_lstrip b)) \<subseteq> set (bytes_lstrip b)"
    unfolding bytes_rstrip_def using set_dropWhileD [of _ is_space "rev (bytes_lstrip b)"]
    by auto
  moreover have "set (bytes_lstrip b) \<subseteq> set b"
    unfolding bytes_lstrip_def using set_dropWhileD [of _ is_space b] by auto
  ultimately show ?thesis by (simp add: bytes_strip_def)
qed

lemma demo_ascii:
  "toascii demo_platform ''X'' = ''X''" "toascii demo_platform ''Y'' = ''Y''"
  "toascii demo_platform [CHR 0x20, CHR 0x20, CHR ''X''] = [CHR 0x20, CHR 0x20, CHR ''X'']"
  by (simp_all add: toascii_def is_ascii_def)

lemma demo_strip:
  "bytes_strip (child_stdout demo_tool) = ''X''"
  "bytes_strip (child_stderr demo_tool) = ''Y''"
  "bytes_rstrip (child_stdout demo_tool) = [CHR 0x20, CHR 0x20, CHR ''X'']"
  "bytes_rstrip (child_stderr demo_tool) = ''Y''"
  by (simp_all add: demo_tool_def bytes_strip_def bytes_lstrip_def bytes_rstrip_def is_space_def)

text \<open>
  C7. When the executable path is absent or empty, \<^verbatim>\<open>execute2\<close> fails with the
  assertion error at once: the process state is the one it started from, so no
  temporary directory or file was made and nothing was spawned, and neither the
  environment arguments nor the platform are looked at.
\<close>

theorem execute2_requires_cmd_loc:
  assumes "\<not> truthy cmd_loc"
  shows "execute2 W cmd_loc args lib_dir cwd_arg env_arg to_files st = (Inl AssertionError, st)"
  using assms by (simp add: execute2_def)

theorem execute2_requires_cmd_loc_witness:
  "\<not> truthy (Some []) \<and>
   execute2 demo_platform (Some []) (Some [''-v'']) None None None False demo_state =
     (Inl AssertionError, demo_state) \<and>
   execute2 demo_platform None None (Some ''/app/lib'') None None True demo_state =
     (Inl AssertionError, demo_state)"
proof -
  have empty: "\<not> truthy (Some [])" and absent: "\<not> truthy None" by simp_all
  from execute2_requires_cmd_loc [OF empty] execute2_requires_cmd_loc [OF absent] empty
  show ?thesis by simp
qed

text \<open>
  C2, as stated (a missing executable makes \<^verbatim>\<open>execute2\<close> return the exit code 100),
  fails: on the sample platform, where \<^verbatim>\<open>/no/such/tool\<close> cannot be spawned, the call
  does not return a result; the error of the spawn reaches the caller.
\<close>

theorem execute2_spawn_error_counterexample:
  "fst (execute2 demo_platform (Some ''/no/such/tool'') None None None None False demo_state) =
     Inl (OSError [''No such file or directory'', ''/no/such/tool''])"
  by (simp add: model_defs demo_defs Let_def)

text \<open>
  C2, amended: when the command cannot be spawned, \<^verbatim>\<open>execute2\<close> never returns a
  result: it raises. When the directory switch succeeds the error raised is the error
  of the spawn. The cleanup has run by then: the working directory is the one before the
  call and no child process is left.
\<close>

theorem execute2_spawn_error_propagates:
  assumes cmd: "truthy cmd_loc"
    and fails: "\<And>a s. spawn W (py_str cmd_loc # (case args of None \<Rightarrow> [] | Some xs \<Rightarrow> xs)) a s = Inl e"
  shows "(\<exists>e'. fst (execute2 W cmd_loc args lib_dir cwd_arg env_arg to_files st) = Inl e') \<and>
         (cwd st \<in> dirs st \<and> str_or lib_dir (cwd st) \<in> dirs st \<longrightarrow>
            fst (execute2 W cmd_loc args lib_dir cwd_arg env_arg to_files st) = Inl e) \<and>
         cwd (snd (execute2 W cmd_loc args lib_dir cwd_arg env_arg to_files st)) = cwd st \<and>
         running (snd (execute2 W cmd_loc args lib_dir cwd_arg env_arg to_files st)) = running st"
proof -
  let ?tmp = "get_temp_dir W ''cmd-'' st"
  let ?sop = "path_join (os_sep W) ?tmp ''stdout''"
  let ?sep = "path_join (os_sep W) ?tmp ''stderr''"
  let ?built = "get_env W env_arg lib_dir st"
  let ?fc = "py_str cmd_loc # (case args of None \<Rightarrow> [] | Some xs \<Rightarrow> xs)"
  let ?pa = "\<lparr>popen_cwd = str_or cwd_arg (curr_dir W),
              popen_env = (if ?built = Map.empty then None else Some ?built),
              popen_stdout = ?sop, popen_stderr = ?sep,
              popen_shell = on_windows W, popen_bufsize = - 1,
              popen_universal_newlines = True\<rparr>"
  let ?s3 = "io_open_w ?sep (io_open_w ?sop (snd (os_get_temp_dir W ''cmd-'' st)))"
  from pushd_block_spawn_fails [of W ?fc e lib_dir ?pa "(None, 100)" ?s3, OF fails]
  obtain e' s4 where
    run: "pushd lib_dir (execute2_block W ?fc ?pa) (None, 100) ?s3 = (Inl e', (None, 100), s4)"
    and s4: "cwd s4 = cwd ?s3" "running s4 = running ?s3"
    and same: "cwd ?s3 \<in> dirs ?s3 \<and> str_or lib_dir (cwd ?s3) \<in> dirs ?s3 \<longrightarrow> e' = e"
    by blast
  have res: "execute2 W cmd_loc args lib_dir cwd_arg env_arg to_files st = (Inl e', s4)"
    by (simp add: execute2_unfold [OF cmd run] close_fields)
  from same have "cwd st \<in> dirs st \<and> str_or lib_dir (cwd st) \<in> dirs st \<longrightarrow> e' = e"
    by (simp add: entry_state)
  with res s4 show ?thesis by (simp add: entry_state)
qed

theorem execute2_spawn_error_propagates_witness:
  "truthy (Some ''/no/such/tool'') \<and>
   fst (execute2 demo_platform (Some ''/no/such/tool'') None None None None False demo_state) =
     Inl (OSError [''No such file or directory'', ''/no/such/tool'']) \<and>
   cwd (snd (execute2 demo_platform (Some ''/no/such/tool'') None None None None False
          demo_state)) = ''/home/user'' \<and>
   running (snd (execute2 demo_platform (Some ''/no/such/tool'') None None None None False
          demo_state)) = {}"
proof -
  have cmd: "truthy (Some ''/no/such/tool'')" by simp
  have fails: "\<And>a s. spawn demo_platform
      (py_str (Some ''/no/such/tool'') # (case None of None \<Rightarrow> [] | Some xs \<Rightarrow> xs)) a s =
      Inl (OSError [''No such file or directory'', ''/no/such/tool''])"
    by (simp add: demo_platform_def demo_spawn_def)
  have dirs: "cwd demo_state \<in> dirs demo_state \<and> str_or None (cwd demo_state) \<in> dirs demo_state"
    by (simp add: demo_state_def)
  have fields: "cwd demo_state = ''/home/user''" "running demo_state = {}"
    by (simp_all add: demo_state_def)
  from execute2_spawn_error_propagates [OF cmd fails, of None None None False demo_state]
    dirs cmd fields
  show ?thesis by simp
qed

text \<open>
  C4, as stated (inline output has only its trailing whitespace stripped, leading content
  kept), fails: the sample tool prints two spaces, \<open>X\<close> and a newline, and
  \<^verbatim>\<open>execute2\<close> returns \<open>X\<close>; stripping the end alone would keep the two spaces.
\<close>

theorem execute2_output_counterexample:
  "fst (execute2 demo_platform (Some ''/app/bin/tool'') None None None None False demo_state) =
     Inr (7, ''X'', ''Y'') \<and>
   fst (execute2 demo_platform (Some ''/app/bin/tool'') None None None None False demo_state) \<noteq>
     Inr (7, toascii demo_platform (bytes_rstrip (child_stdout demo_tool)),
          toascii demo_platform (bytes_rstrip (child_stderr demo_tool)))"
proof -
  have run: "fst (execute2 demo_platform (Some ''/app/bin/tool'') None None None None False
      demo_state) = Inr (7, toascii demo_platform (bytes_strip (child_stdout demo_tool)),
                         toascii demo_platform (bytes_strip (child_stderr demo_tool)))"
    by (simp add: model_defs demo_platform_def demo_state_def demo_spawn_def Let_def)
      (simp add: demo_tool_def)
  from run show ?thesis by (simp add: demo_strip demo_ascii)
qed

text \<open>
  C4, amended: for every invocation whose command runs (and whose directory switch
  succeeds), with inline output \<^verbatim>\<open>execute2\<close> returns the child's exit code and the
  contents of the two backing files, read in full, with the whitespace at both ends
  stripped and then decoded by \<^verbatim>\<open>text.toascii\<close> into ASCII-safe text: every character
  of the two payloads is ASCII, non-ASCII bytes having been escaped or replaced, and the
  call returns whatever bytes the child wrote, so no decoding error is raised. With file
  output it returns the exit code and the two file paths, and reads neither file.
\<close>

theorem execute2_output:
  fixes W cmd_loc args lib_dir cwd_arg env_arg st
  defines "sop \<equiv> path_join (os_sep W) (get_temp_dir W ''cmd-'' st) ''stdout''"
  defines "sep \<equiv> path_join (os_sep W) (get_temp_dir W ''cmd-'' st) ''stderr''"
  assumes cmd: "truthy cmd_loc"
    and ok: "\<And>a s. spawn W (py_str cmd_loc # (case args of None \<Rightarrow> [] | Some xs \<Rightarrow> xs)) a s = Inr p"
    and here: "cwd st \<in> dirs st" and target: "str_or lib_dir (cwd st) \<in> dirs st"
  shows "fst (execute2 W cmd_loc args lib_dir cwd_arg env_arg False st) =
           Inr (child_returncode p, toascii W (bytes_strip (child_stdout p)),
                toascii W (bytes_strip (child_stderr p))) \<and>
         (\<forall>c \<in> set (toascii W (bytes_strip (child_stdout p))). is_ascii c) \<and>
         (\<forall>c \<in> set (toascii W (bytes_strip (child_stderr p))). is_ascii c) \<and>
         ((\<forall>c \<in> set (child_stdout p). is_ascii c) \<longrightarrow>
            toascii W (bytes_strip (child_stdout p)) = bytes_strip (child_stdout p)) \<and>
         ((\<forall>c \<in> set (child_stderr p). is_ascii c) \<longrightarrow>
            toascii W (bytes_strip (child_stderr p)) = bytes_strip (child_stderr p)) \<and>
         files (snd (execute2 W cmd_loc args lib_dir cwd_arg env_arg False st)) sop =
           Some (child_stdout p) \<and>
         files (snd (execute2 W cmd_loc args lib_dir cwd_arg env_arg False st)) sep =
           Some (child_stderr p) \<and>
         read_events (trace (snd (execute2 W cmd_loc args lib_dir cwd_arg env_arg False st))) =
           read_events (trace st) @ [sop, sep] \<and>
         fst (execute2 W cmd_loc args lib_dir cwd_arg env_arg True st) =
           Inr (child_returncode p, sop, sep) \<and>
         read_events (trace (snd (execute2 W cmd_loc args lib_dir cwd_arg env_arg True st))) =
           read_events (trace st)"
proof -
  from execute2_runs [OF cmd ok here target, of cwd_arg env_arg]
  obtain s5 where
    out: "files s5 sop = Some (child_stdout p)" and err: "files s5 sep = Some (child_stderr p)"
    and reads: "read_events (trace s5) = read_events (trace st)"
    and files_mode: "execute2 W cmd_loc args lib_dir cwd_arg env_arg True st =
      (Inr (child_returncode p, sop, sep), s5)"
    and inline_mode: "execute2 W cmd_loc args lib_dir cwd_arg env_arg False st =
      (Inr (child_returncode p, toascii W (bytes_strip (child_stdout p)),
            toascii W (bytes_strip (child_stderr p))),
       log_event (Read_file sep) (log_event (Read_file sop) s5))"
    unfolding sop_def sep_def by blast
  have safe: "\<And>b. \<forall>c \<in> set (toascii W b). is_ascii c"
    by (simp add: toascii_is_ascii)
  have kept: "\<And>b. (\<forall>c \<in> set b. is_ascii c) \<longrightarrow> toascii W (bytes_strip b) = bytes_strip b"
    using set_bytes_strip by (auto intro!: toascii_ascii_id)
  have run: "fst (execute2 W cmd_loc args lib_dir cwd_arg env_arg False st) =
           Inr (child_returncode p, toascii W (bytes_strip (child_stdout p)),
                toascii W (bytes_strip (child_stderr p))) \<and>
         files (snd (execute2 W cmd_loc args lib_dir cwd_arg env_arg False st)) sop =
           Some (child_stdout p) \<and>
         files (snd (execute2 W cmd_loc args lib_dir cwd_arg env_arg False st)) sep =
           Some (child_stderr p) \<and>
         read_events (trace (snd (execute2 W cmd_loc args lib_dir cwd_arg env_arg False st))) =
           read_events (trace st) @ [sop, sep] \<and>
         fst (execute2 W cmd_loc args lib_dir cwd_arg env_arg True st) =
           Inr (child_returncode p, sop, sep) \<and>
         read_events (trace (snd (execute2 W cmd_loc args lib_dir cwd_arg env_arg True st))) =
           read_events (trace st)"
    using out err reads
    by (simp add: files_mode inline_mode log_event_def read_events_append)
  from run safe [of "bytes_strip (child_stdout p)"] safe [of "bytes_strip (child_stderr p)"]
    kept [of "child_stdout p"] kept [of "child_stderr p"]
  show ?thesis by blast
qed

theorem execute2_output_witness:
  "truthy (Some ''/app/bin/tool'') \<and>
   fst (execute2 demo_platform (Some ''/app/bin/tool'') None None None None False demo_state) =
     Inr (7, ''X'', ''Y'') \<and>
   fst (execute2 demo_platform (Some ''/app/bin/tool'') None None None None True demo_state) =
     Inr (7, ''/tmp/cmd-0/stdout'', ''/tmp/cmd-0/stderr'') \<and>
   read_events (trace (snd (execute2 demo_platform (Some ''/app/bin/tool'') None None None None
     True demo_state))) = [] \<and>
   \<not> is_ascii (CHR 0xE9) \<and>
   files (snd (execute2 demo_platform (Some ''/app/bin/latin'') None None None None False
     demo_state)) ''/tmp/cmd-0/stdout'' = Some [CHR 0xE9, CHR ''X'', CHR 0x0A] \<and>
   fst (execute2 demo_platform (Some ''/app/bin/latin'') None None None None False demo_state) =
     Inr (0, ''?X'', [])"
proof -
  have cmd: "truthy (Some ''/app/bin/tool'')" and cmd_latin: "truthy (Some ''/app/bin/latin'')"
    by simp_all
  have ok: "\<And>a s. spawn demo_platform
      (py_str (Some ''/app/bin/tool'') # (case None of None \<Rightarrow> [] | Some xs \<Rightarrow> xs)) a s =
      Inr demo_tool"
    by (simp add: demo_platform_def demo_spawn_def)
  have ok_latin: "\<And>a s. spawn demo_platform
      (py_str (Some ''/app/bin/latin'') # (case None of None \<Rightarrow> [] | Some xs \<Rightarrow> xs)) a s =
      Inr demo_latin"
    by (simp add: demo_platform_def demo_spawn_def)
  have here: "cwd demo_state \<in> dirs demo_state" by (simp add: demo_state_def)
  have target: "str_or None (cwd demo_state) \<in> dirs demo_state" by (simp add: demo_state_def)
  have paths:
    "path_join (os_sep demo_platform) (get_temp_dir demo_platform ''cmd-'' demo_state) ''stdout'' =
       ''/tmp/cmd-0/stdout''"
    "path_join (os_sep demo_platform) (get_temp_dir demo_platform ''cmd-'' demo_state) ''stderr'' =
       ''/tmp/cmd-0/stderr''"
    by (simp_all add: demo_platform_def path_join_def)
  have rc: "child_returncode demo_tool = 7" "child_returncode demo_latin = 0"
    by (simp_all add: demo_tool_def demo_latin_def)
  have no_reads: "read_events (trace demo_state) = []" by (simp add: demo_state_def)
  have latin: "child_stdout demo_latin = [CHR 0xE9, CHR ''X'', CHR 0x0A]"
    "child_stderr demo_latin = []"
    "toascii demo_platform (bytes_strip [CHR 0xE9, CHR ''X'', CHR 0x0A]) = ''?X''"
    "toascii demo_platform (bytes_strip []) = []"
    "\<not> is_ascii (CHR 0xE9)"
    by (simp_all add: demo_latin_def demo_platform_def toascii_def is_ascii_def
          bytes_strip_def bytes_lstrip_def bytes_rstrip_def is_space_def)
  from execute2_output [OF cmd ok here target, of None None]
    execute2_output [OF cmd_latin ok_latin here target, of None None] cmd
  show ?thesis by (simp add: demo_strip demo_ascii paths rc no_reads latin)
qed

text \<open>
  C10. When the caller gives no base environment and \<^verbatim>\<open>get_env\<close> adds nothing (no
  library directory, or not a POSIX platform), the map \<^verbatim>\<open>get_env\<close> builds is empty and
  \<^verbatim>\<open>execute2\<close> passes \<^verbatim>\<open>env=None\<close> to \<^verbatim>\<open>subprocess.Popen\<close>, with which a child
  inherits the environment of the process: the one spawn the call makes (when the
  directory switch succeeds; none otherwise) has no environment map.
\<close>

theorem execute2_no_env_inherits:
  assumes cmd: "truthy cmd_loc" and adds_none: "\<not> (truthy lib_dir \<and> on_posix W)"
  shows "popen_events (trace (snd (execute2 W cmd_loc args lib_dir cwd_arg None to_files st))) =
     popen_events (trace st) @
       (if cwd st \<in> insert (get_temp_dir W ''cmd-'' st) (dirs st) \<and>
           str_or lib_dir (cwd st) \<in> insert (get_temp_dir W ''cmd-'' st) (dirs st)
        then [(py_str cmd_loc # (case args of None \<Rightarrow> [] | Some a \<Rightarrow> a),
               \<lparr>popen_cwd = str_or cwd_arg (curr_dir W),
                popen_env = None,
                popen_stdout = path_join (os_sep W) (get_temp_dir W ''cmd-'' st) ''stdout'',
                popen_stderr = path_join (os_sep W) (get_temp_dir W ''cmd-'' st) ''stderr'',
                popen_shell = on_windows W, popen_bufsize = - 1,
                popen_universal_newlines = True\<rparr>)]
        else [])"
proof -
  have "(if get_env W None lib_dir st = Map.empty then None
         else Some (get_env W None lib_dir st)) = None"
    by (rule if_P) (rule get_env_empty [OF adds_none])
  with execute2_popen_events [OF cmd, of W args lib_dir cwd_arg None to_files st]
  show ?thesis by simp
qed

theorem execute2_no_env_inherits_witness:
  "truthy (Some ''/app/bin/tool'') \<and> \<not> (truthy None \<and> on_posix demo_platform) \<and>
   popen_events (trace (snd (execute2 demo_platform (Some ''/app/bin/tool'') (Some [''-v''])
     None None None False demo_state))) =
     [([''/app/bin/tool'', ''-v''],
       \<lparr>popen_cwd = ''/app'', popen_env = None, popen_stdout = ''/tmp/cmd-0/stdout'',
        popen_stderr = ''/tmp/cmd-0/stderr'', popen_shell = False, popen_bufsize = - 1,
        popen_universal_newlines = True\<rparr>)]"
proof -
  have cmd: "truthy (Some ''/app/bin/tool'')" by simp
  have adds_none: "\<not> (truthy None \<and> on_posix demo_platform)" by simp
  have paths:
    "path_join (os_sep demo_platform) (get_temp_dir demo_platform ''cmd-'' demo_state) ''stdout'' =
       ''/tmp/cmd-0/stdout''"
    "path_join (os_sep demo_platform) (get_temp_dir demo_platform ''cmd-'' demo_state) ''stderr'' =
       ''/tmp/cmd-0/stderr''"
    by (simp_all add: demo_platform_def path_join_def)
  have fields: "cwd demo_state \<in> dirs demo_state" "trace demo_state = []"
    "curr_dir demo_platform = ''/app''" "on_windows demo_platform = False"
    by (simp_all add: demo_state_def demo_platform_def)
  from execute2_no_env_inherits [OF cmd adds_none, of "Some [''-v'']" None False demo_state]
    cmd adds_none
  show ?thesis by (simp add: paths fields)
qed

end
